theory Spec2Isabelle
  imports Complex_Main "HOL-Library.AList"
begin

section \<open>Cell values of a data frame\<close>

text \<open>
  The cells of the price history handed to \<open>calculate_technical_indicators\<close> are finite
  numbers (open, high, low, close, volume); they are modelled as reals, so rounding is
  idealised away. Derived cells can also hold the special values of the float type: the
  first difference has no value at the first row, and a division by zero gives an
  infinity or NaN instead of raising. These are kept as explicit values.
  The model has no negative zero: the only divisor of the program that can be zero is
  the result of \<open>abs\<close>, whose zero is positive.
\<close>

datatype fval = Fin real | PInf | NInf | NaN

fun fneg :: "fval \<Rightarrow> fval" where
  "fneg (Fin x) = Fin (- x)"
| "fneg PInf = NInf"
| "fneg NInf = PInf"
| "fneg NaN = NaN"

fun fabs :: "fval \<Rightarrow> fval" where
  "fabs (Fin x) = Fin \<bar>x\<bar>"
| "fabs PInf = PInf"
| "fabs NInf = PInf"
| "fabs NaN = NaN"

fun fadd :: "fval \<Rightarrow> fval \<Rightarrow> fval" where
  "fadd NaN y = NaN"
| "fadd x NaN = NaN"
| "fadd (Fin x) (Fin y) = Fin (x + y)"
| "fadd PInf NInf = NaN"
| "fadd NInf PInf = NaN"
| "fadd PInf y = PInf"
| "fadd x PInf = PInf"
| "fadd NInf y = NInf"
| "fadd x NInf = NInf"

definition fsub :: "fval \<Rightarrow> fval \<Rightarrow> fval" where
  "fsub x y = fadd x (fneg y)"

fun fsign :: "fval \<Rightarrow> int" where
  "fsign (Fin x) = (if x = 0 then 0 else if 0 < x then 1 else - 1)"
| "fsign PInf = 1"
| "fsign NInf = - 1"
| "fsign NaN = 0"

fun fmul :: "fval \<Rightarrow> fval \<Rightarrow> fval" where
  "fmul NaN y = NaN"
| "fmul x NaN = NaN"
| "fmul (Fin x) (Fin y) = Fin (x * y)"
| "fmul x y =
     (let s = fsign x * fsign y in if s = 0 then NaN else if 0 < s then PInf else NInf)"

fun fdiv :: "fval \<Rightarrow> fval \<Rightarrow> fval" where
  "fdiv NaN y = NaN"
| "fdiv x NaN = NaN"
| "fdiv (Fin x) (Fin y) =
     (if y = 0 then (if x = 0 then NaN else if 0 < x then PInf else NInf) else Fin (x / y))"
| "fdiv (Fin x) y = Fin 0"
| "fdiv PInf (Fin y) = (if y < 0 then NInf else PInf)"
| "fdiv NInf (Fin y) = (if y < 0 then PInf else NInf)"
| "fdiv x y = NaN"

fun flt :: "fval \<Rightarrow> fval \<Rightarrow> bool" where
  "flt NaN y = False"
| "flt x NaN = False"
| "flt (Fin x) (Fin y) = (x < y)"
| "flt PInf y = False"
| "flt x PInf = True"
| "flt NInf y = (y \<noteq> NInf)"
| "flt x NInf = False"

section \<open>The pandas operations the engine calls\<close>

text \<open>
  \<open>Series.rolling(window=k)\<close> with the default \<open>min_periods = k\<close>: at row \<open>i\<close> the window
  holds the rows \<open>i - k + 1 .. i\<close> that exist, and an aggregate is a number only when the
  window holds at least \<open>k\<close> observations (and at least one; for the standard deviation,
  more than \<open>ddof = 1\<close>). The engine calls it on the supplied Close and Volume columns.
\<close>

definition window :: "nat \<Rightarrow> 'a list \<Rightarrow> nat \<Rightarrow> 'a list" where
  "window k xs i = drop (i + 1 - k) (take (i + 1) xs)"

definition mean :: "real list \<Rightarrow> real" where
  "mean w = sum_list w / real (length w)"

definition sample_std :: "real list \<Rightarrow> real" where
  "sample_std w = sqrt (sum_list (map (\<lambda>x. (x - mean w)\<^sup>2) w) / real (length w - 1))"

definition rolling_mean :: "nat \<Rightarrow> real list \<Rightarrow> fval list" where
  "rolling_mean k xs =
     map (\<lambda>i. let w = window k xs i; nobs = length w
               in if k \<le> nobs \<and> 0 < nobs then Fin (mean w) else NaN)
         [0..<length xs]"

definition rolling_std :: "nat \<Rightarrow> real list \<Rightarrow> fval list" where
  "rolling_std k xs =
     map (\<lambda>i. let w = window k xs i; nobs = length w
               in if k \<le> nobs \<and> 1 < nobs then Fin (sample_std w) else NaN)
         [0..<length xs]"

text \<open>
  \<open>Series.diff(1)\<close>: the first row has no predecessor and is NaN.
\<close>

definition diff :: "real list \<Rightarrow> fval list" where
  "diff xs = (case xs of [] \<Rightarrow> [] | x # rest \<Rightarrow> NaN # map2 (\<lambda>c p. Fin (c - p)) rest xs)"

text \<open>
  \<open>Series.ewm(span=s, adjust=False).mean()\<close>, with the defaults \<open>ignore_na = False\<close> and
  one minimum period: the running state of the library's loop is the weighted value, the
  weight of the old value and the number of observations seen. A NaN is not an
  observation: while the weighted value is still NaN the first observation replaces it;
  afterwards a NaN only ages the old weight. When the centre of mass is exactly 1 the
  library takes the weight of the new value as one minus the aged old weight; this
  differs from \<open>alpha\<close> only after a NaN between two observations, which the engine never
  produces (its only NaN is the leading one of \<open>diff\<close>).
\<close>

record ewm_state =
  weighted :: fval
  old_wt :: real
  nobs :: nat

definition ewm_step :: "real \<Rightarrow> real \<Rightarrow> ewm_state \<Rightarrow> fval \<Rightarrow> ewm_state" where
  "ewm_step com alpha s cur =
     (let is_observation = (cur \<noteq> NaN);
          n = nobs s + (if is_observation then 1 else 0)
      in if weighted s \<noteq> NaN then
           (let ow = old_wt s * (1 - alpha);
                new_wt = (if com = 1 then 1 - ow else alpha)
            in if is_observation then
                 \<lparr>weighted =
                    (if weighted s \<noteq> cur
                     then fdiv (fadd (fmul (Fin ow) (weighted s)) (fmul (Fin new_wt) cur))
                               (Fin (ow + new_wt))
                     else weighted s),
                  old_wt = 1, nobs = n\<rparr>
               else \<lparr>weighted = weighted s, old_wt = ow, nobs = n\<rparr>)
         else if is_observation then \<lparr>weighted = cur, old_wt = old_wt s, nobs = n\<rparr>
         else \<lparr>weighted = weighted s, old_wt = old_wt s, nobs = n\<rparr>)"

definition ewm_out :: "ewm_state \<Rightarrow> fval" where
  "ewm_out s = (if 1 \<le> nobs s then weighted s else NaN)"

fun ewm_loop :: "real \<Rightarrow> real \<Rightarrow> ewm_state \<Rightarrow> fval list \<Rightarrow> fval list" where
  "ewm_loop com alpha s [] = []"
| "ewm_loop com alpha s (cur # vals) =
     (let s' = ewm_step com alpha s cur in ewm_out s' # ewm_loop com alpha s' vals)"

definition ewm_mean :: "real \<Rightarrow> fval list \<Rightarrow> fval list" where
  "ewm_mean spn vals =
     (case vals of
        [] \<Rightarrow> []
      | v # rest \<Rightarrow>
          (let com = (spn - 1) / 2;
               alpha = 1 / (1 + com);
               s0 = \<lparr>weighted = v, old_wt = 1, nobs = (if v \<noteq> NaN then 1 else 0)\<rparr>
           in ewm_out s0 # ewm_loop com alpha s0 rest))"

section \<open>The data frame\<close>

text \<open>
  A frame holds the supplied bars (its index and OHLCV columns, row by row) and the
  derived columns in the order they were attached. Assigning \<open>data[name] = col\<close>
  replaces a column of that name in place or appends a new one.
  \<open>dropna\<close> keeps the rows in which no column is NaN; the bars are finite, so only the
  derived columns decide.
\<close>

record bar =
  timestamp :: nat
  bar_open :: real
  bar_high :: real
  bar_low :: real
  bar_close :: real
  bar_volume :: real

record frame =
  bars :: "bar list"
  columns :: "(string \<times> fval list) list"

definition Close :: "frame \<Rightarrow> real list" where
  "Close data = map bar_close (bars data)"

definition Volume :: "frame \<Rightarrow> real list" where
  "Volume data = map bar_volume (bars data)"

definition empty :: "frame \<Rightarrow> bool" where
  "empty data = (bars data = [])"

definition setcol :: "string \<Rightarrow> fval list \<Rightarrow> frame \<Rightarrow> frame" where
  "setcol name col data = data\<lparr>columns := AList.update name col (columns data)\<rparr>"

definition row_defined :: "frame \<Rightarrow> nat \<Rightarrow> bool" where
  "row_defined data i = list_all (\<lambda>(name, col). col ! i \<noteq> NaN) (columns data)"

definition kept_rows :: "frame \<Rightarrow> nat list" where
  "kept_rows data = filter (row_defined data) [0..<length (bars data)]"

definition dropna :: "frame \<Rightarrow> frame" where
  "dropna data =
     (let keep = kept_rows data
      in \<lparr>bars = map (\<lambda>i. bars data ! i) keep,
          columns = map (\<lambda>(name, col). (name, map (\<lambda>i. col ! i) keep)) (columns data)\<rparr>)"

section \<open>The indicator engine\<close>

text \<open>
  The series computed in the body of \<open>calculate_technical_indicators\<close>
  (\<^verbatim>\<open>src/stock-analyzer.py\<close>, lines 27 to 58), each a function of the Close column, under
  the name of its local variable or of the column it is assigned to. The source reads
  \<open>Middle_Band\<close> back from the frame right after assigning it; the bands use the same
  series here. The losses are kept non-positive, as in the source, and only their
  smoothed average is made positive by \<open>abs\<close>.
\<close>

definition delta :: "real list \<Rightarrow> fval list" where
  "delta closes = diff closes"

definition gain :: "real list \<Rightarrow> fval list" where
  "gain closes = map (\<lambda>v. if flt v (Fin 0) then Fin 0 else v) (delta closes)"

definition loss :: "real list \<Rightarrow> fval list" where
  "loss closes = map (\<lambda>v. if flt (Fin 0) v then Fin 0 else v) (delta closes)"

definition avg_gain :: "real list \<Rightarrow> fval list" where
  "avg_gain closes = ewm_mean 14 (gain closes)"

definition avg_loss :: "real list \<Rightarrow> fval list" where
  "avg_loss closes = map fabs (ewm_mean 14 (loss closes))"

definition rs :: "real list \<Rightarrow> fval list" where
  "rs closes = map2 fdiv (avg_gain closes) (avg_loss closes)"

definition RSI :: "real list \<Rightarrow> fval list" where
  "RSI closes = map (\<lambda>r. fsub (Fin 100) (fdiv (Fin 100) (fadd (Fin 1) r))) (rs closes)"

definition EMA_12 :: "real list \<Rightarrow> fval list" where
  "EMA_12 closes = ewm_mean 12 (map Fin closes)"

definition EMA_26 :: "real list \<Rightarrow> fval list" where
  "EMA_26 closes = ewm_mean 26 (map Fin closes)"

definition MACD :: "real list \<Rightarrow> fval list" where
  "MACD closes = map2 fsub (EMA_12 closes) (EMA_26 closes)"

definition Signal_Line :: "real list \<Rightarrow> fval list" where
  "Signal_Line closes = ewm_mean 9 (MACD closes)"

definition Middle_Band :: "real list \<Rightarrow> fval list" where
  "Middle_Band closes = rolling_mean 20 closes"

definition Upper_Band :: "real list \<Rightarrow> fval list" where
  "Upper_Band closes =
     map2 fadd (Middle_Band closes) (map (\<lambda>s. fmul s (Fin 2)) (rolling_std 20 closes))"

definition Lower_Band :: "real list \<Rightarrow> fval list" where
  "Lower_Band closes =
     map2 fsub (Middle_Band closes) (map (\<lambda>s. fmul s (Fin 2)) (rolling_std 20 closes))"

text \<open>
  The assignments of the function body, in source order; the frame before the final
  \<open>dropna\<close>.
\<close>

definition attach_indicators :: "frame \<Rightarrow> frame" where
  "attach_indicators data =
     (let closes = Close data;
          d1 = setcol ''SMA_20'' (rolling_mean 20 closes) data;
          d2 = setcol ''SMA_50'' (rolling_mean 50 closes) d1;
          d3 = setcol ''RSI'' (RSI closes) d2;
          d4 = setcol ''EMA_12'' (EMA_12 closes) d3;
          d5 = setcol ''EMA_26'' (EMA_26 closes) d4;
          d6 = setcol ''MACD'' (MACD closes) d5;
          d7 = setcol ''Signal_Line'' (Signal_Line closes) d6;
          d8 = setcol ''Middle_Band'' (Middle_Band closes) d7;
          d9 = setcol ''Upper_Band'' (Upper_Band closes) d8;
          d10 = setcol ''Lower_Band'' (Lower_Band closes) d9
      in setcol ''Volume_SMA_20'' (rolling_mean 20 (Volume data)) d10)"

text \<open>
  The function receives a reference to a frame object, or \<open>None\<close>, mutates the object in
  place and returns the same reference. The heap maps object addresses to frames.
\<close>

datatype pyref = PyNone | DataFrame nat

type_synonym heap = "nat \<Rightarrow> frame"

definition calculate_technical_indicators :: "pyref \<Rightarrow> heap \<Rightarrow> pyref \<times> heap" where
  "calculate_technical_indicators data h =
     (case data of
        PyNone \<Rightarrow> (PyNone, h)
      | DataFrame a \<Rightarrow>
          if empty (h a) then (DataFrame a, h)
          else (DataFrame a, h(a := dropna (attach_indicators (h a)))))"

text \<open>A freshly fetched history: the bars and no derived column yet.\<close>

definition history :: "bar list \<Rightarrow> frame" where
  "history bs = \<lparr>bars = bs, columns = []\<rparr>"

definition column :: "frame \<Rightarrow> string \<Rightarrow> fval list option" where
  "column data name = map_of (columns data) name"

text \<open>
  A sample history of \<open>n\<close> bars whose closes rise by one each bar: \<open>0, 1, 2, ...\<close>.
\<close>

definition rising :: "nat \<Rightarrow> bar list" where
  "rising n =
     map (\<lambda>i. \<lparr>timestamp = i, bar_open = real i, bar_high = real i + 1, bar_low = real i,
                 bar_close = real i, bar_volume = 1000\<rparr>)
         [0..<n]"


section \<open>The contracts in the words of the specification\<close>

text \<open>
  The exponential moving average as the specification writes it: smoothing factor
  \<open>2 / (k + 1)\<close>, seeded at the first observation, then
  \<open>\<alpha> * x + (1 - \<alpha>) * previous\<close>.
\<close>

fun ema_rec :: "real \<Rightarrow> real \<Rightarrow> real list \<Rightarrow> real list" where
  "ema_rec \<alpha> prev [] = []"
| "ema_rec \<alpha> prev (x # xs) = (\<alpha> * x + (1 - \<alpha>) * prev) # ema_rec \<alpha> (\<alpha> * x + (1 - \<alpha>) * prev) xs"

definition ema_spec :: "real \<Rightarrow> real list \<Rightarrow> real list" where
  "ema_spec k xs = (case xs of [] \<Rightarrow> [] | x # rest \<Rightarrow> x # ema_rec (2 / (k + 1)) x rest)"

text \<open>The first differences \<open>close[i] - close[i - 1]\<close> for \<open>i \<ge> 1\<close>, as plain numbers.\<close>

definition first_differences :: "real list \<Rightarrow> real list" where
  "first_differences xs = map2 (\<lambda>c p. c - p) (tl xs) xs"

section \<open>Simple moving average\<close>

lemma length_window: "i < length xs \<Longrightarrow> length (window k xs i) = min k (i + 1)"
  by (auto simp: window_def)

lemma sum_list_window:
  assumes "i < length (xs :: real list)"
  shows "sum_list (window k xs i) = (\<Sum>j = i + 1 - k..i. xs ! j)"
proof -
  define a where "a = i + 1 - k"
  have a: "a \<le> i + 1" by (simp add: a_def)
  have "sum_list (window k xs i) = (\<Sum>j = 0..<length (window k xs i). window k xs i ! j)"
    by (rule sum_list_sum_nth)
  also have "\<dots> = (\<Sum>j = 0..<i + 1 - a. xs ! (j + a))"
    using assms by (intro sum.cong) (auto simp: window_def a_def add.commute)
  also have "\<dots> = (\<Sum>j = 0 + a..<(i + 1 - a) + a. xs ! j)"
    by (rule sum.shift_bounds_nat_ivl [symmetric])
  also have "{0 + a..<(i + 1 - a) + a} = {a..i}" using a by auto
  finally show ?thesis by (simp add: a_def)
qed

lemma length_rolling_mean [simp]: "length (rolling_mean k xs) = length xs"
  by (simp add: rolling_mean_def)

lemma rolling_mean_window:
  assumes "i < length xs"
  shows "rolling_mean k xs ! i =
           (if k \<le> length (window k xs i) \<and> 0 < length (window k xs i)
            then Fin (mean (window k xs i)) else NaN)"
  using assms by (auto simp: rolling_mean_def Let_def)

lemma rolling_mean_nth:
  assumes "1 \<le> k" "i < length xs"
  shows "rolling_mean k xs ! i =
           (if i + 1 < k then NaN else Fin ((\<Sum>j = i + 1 - k..i. xs ! j) / real k))"
proof -
  have len: "length (window k xs i) = min k (i + 1)"
    using assms by (simp add: length_window)
  show ?thesis
    unfolding rolling_mean_window [OF assms(2)]
    using assms by (auto simp: len mean_def sum_list_window min_def)
qed

lemma column_setcol:
  "column (setcol n c d) m = (if m = n then Some c else column d m)"
  by (simp add: column_def setcol_def update_conv')

lemma column_SMA_20: "column (attach_indicators d) ''SMA_20'' = Some (rolling_mean 20 (Close d))"
  by (simp add: attach_indicators_def Let_def column_setcol)

lemma column_SMA_50: "column (attach_indicators d) ''SMA_50'' = Some (rolling_mean 50 (Close d))"
  by (simp add: attach_indicators_def Let_def column_setcol)

lemma column_Volume_SMA_20:
  "column (attach_indicators d) ''Volume_SMA_20'' = Some (rolling_mean 20 (Volume d))"
  by (simp add: attach_indicators_def Let_def column_setcol)

text \<open>
  C1. For a window size \<open>k \<ge> 1\<close> the rolling mean has the length of its input; at row \<open>i\<close>
  it is the arithmetic mean of the rows \<open>i - k + 1 .. i\<close>, and NaN when \<open>i < k - 1\<close>. The
  engine attaches it as \<open>SMA_20\<close> and \<open>SMA_50\<close> of the closes and as \<open>Volume_SMA_20\<close> of
  the volumes.
\<close>

theorem sma_contract:
  assumes "1 \<le> k"
  shows "length (rolling_mean k xs) = length xs \<and>
         (\<forall>i<length xs. rolling_mean k xs ! i =
            (if i + 1 < k then NaN else Fin ((\<Sum>j = i + 1 - k..i. xs ! j) / real k))) \<and>
         column (attach_indicators d) ''SMA_20'' = Some (rolling_mean 20 (Close d)) \<and>
         column (attach_indicators d) ''SMA_50'' = Some (rolling_mean 50 (Close d)) \<and>
         column (attach_indicators d) ''Volume_SMA_20'' = Some (rolling_mean 20 (Volume d))"
  using assms
  by (simp add: rolling_mean_nth column_SMA_20 column_SMA_50 column_Volume_SMA_20)

theorem sma_contract_witness:
  "(1::nat) \<le> 2 \<and> length (rolling_mean 2 [1, 2, 4, 8]) = 4 \<and>
   rolling_mean 2 [1, 2, 4, 8] ! 0 = NaN \<and>
   rolling_mean 2 [1, 2, 4, 8] ! 2 = Fin 3 \<and>
   column (attach_indicators (history [])) ''SMA_20'' = Some []"
proof -
  have k: "(1::nat) \<le> 2" by simp
  note c = sma_contract [OF k, of "[1, 2, 4, 8]" "history []"]
  have s: "(\<Sum>j = 2 + 1 - 2..2. [1, 2, 4, 8::real] ! j) = 6"
    by (simp add: numeral_2_eq_2 sum.atLeast_Suc_atMost)
  from c have "rolling_mean 2 [1, 2, 4, 8] ! 0 = NaN" by simp
  moreover from c have "rolling_mean 2 [1, 2, 4, 8] ! 2 =
      Fin ((\<Sum>j = 2 + 1 - 2..2. [1, 2, 4, 8::real] ! j) / real 2)" by simp
  moreover from c have "length (rolling_mean 2 [1, 2, 4, 8]) = 4" by simp
  moreover from c have "column (attach_indicators (history [])) ''SMA_20'' = Some []"
    by (simp add: Close_def history_def rolling_mean_def)
  ultimately show ?thesis using k s by simp
qed

section \<open>Exponential moving average and MACD\<close>

lemma length_ema_rec [simp]: "length (ema_rec \<alpha> p xs) = length xs"
  by (induction xs arbitrary: p) simp_all

lemma length_ema_spec [simp]: "length (ema_spec k xs) = length xs"
  by (simp add: ema_spec_def split: list.splits)

lemma ewm_step_fin:
  "ewm_step c \<alpha> \<lparr>weighted = Fin p, old_wt = 1, nobs = Suc n\<rparr> (Fin x) =
     \<lparr>weighted = Fin (\<alpha> * x + (1 - \<alpha>) * p), old_wt = 1, nobs = Suc (Suc n)\<rparr>"
  by (simp add: ewm_step_def Let_def algebra_simps)

lemma ewm_loop_fin:
  "ewm_loop c \<alpha> \<lparr>weighted = Fin p, old_wt = 1, nobs = Suc n\<rparr> (map Fin xs) =
     map Fin (ema_rec \<alpha> p xs)"
  by (induction xs arbitrary: p n) (simp_all add: ewm_step_fin ewm_out_def Let_def)

lemma alpha_span: "1 \<le> k \<Longrightarrow> 1 / (1 + (k - 1) / 2) = 2 / (k + (1::real))"
  by (simp add: field_simps)

lemma ewm_mean_fin:
  assumes "1 \<le> k"
  shows "ewm_mean k (map Fin xs) = map Fin (ema_spec k xs)"
proof (cases xs)
  case Nil
  then show ?thesis by (simp add: ewm_mean_def ema_spec_def)
next
  case (Cons x rest)
  then show ?thesis
    using ewm_loop_fin [of "(k - 1) / 2" "2 / (k + 1)" x 0 rest]
    by (simp add: ewm_mean_def ema_spec_def Let_def ewm_out_def alpha_span [OF assms])
qed

lemma ewm_step_seed:
  "ewm_step c \<alpha> \<lparr>weighted = NaN, old_wt = 1, nobs = 0\<rparr> (Fin x) =
     \<lparr>weighted = Fin x, old_wt = 1, nobs = Suc 0\<rparr>"
  by (simp add: ewm_step_def Let_def)

lemma ewm_mean_nan_fin:
  assumes "1 \<le> k"
  shows "ewm_mean k (NaN # map Fin ys) = NaN # map Fin (ema_spec k ys)"
proof (cases ys)
  case Nil
  then show ?thesis by (simp add: ewm_mean_def ema_spec_def ewm_out_def)
next
  case (Cons y rest)
  then show ?thesis
    using ewm_loop_fin [of "(k - 1) / 2" "2 / (k + 1)" y 0 rest]
    by (simp add: ewm_mean_def ema_spec_def Let_def ewm_out_def ewm_step_seed
        alpha_span [OF assms])
qed

lemma ema_rec_nth:
  "i < length xs \<Longrightarrow>
   ema_rec \<alpha> p xs ! i = \<alpha> * xs ! i + (1 - \<alpha>) * (p # ema_rec \<alpha> p xs) ! i"
proof (induction xs arbitrary: p i)
  case Nil
  then show ?case by simp
next
  case (Cons x xs)
  then show ?case by (cases i) simp_all
qed

lemma ema_spec_0: "xs \<noteq> [] \<Longrightarrow> ema_spec k xs ! 0 = xs ! 0"
  by (cases xs) (simp_all add: ema_spec_def)

lemma ema_spec_Suc:
  assumes "0 < i" "i < length xs"
  shows "ema_spec k xs ! i =
           2 / (k + 1) * xs ! i + (1 - 2 / (k + 1)) * ema_spec k xs ! (i - 1)"
proof (cases xs)
  case Nil
  with assms show ?thesis by simp
next
  case (Cons x rest)
  from assms obtain j where j: "i = Suc j" by (cases i) auto
  with assms Cons have "j < length rest" by simp
  from ema_rec_nth [OF this, of "2 / (k + 1)" x]
  show ?thesis by (simp add: Cons j ema_spec_def)
qed

lemma map2_fsub_Fin:
  "map2 fsub (map Fin as) (map Fin bs) = map Fin (map2 (\<lambda>a b. a - b) as bs)"
  by (simp add: zip_map_map fsub_def case_prod_beta)

lemma EMA_12_spec: "EMA_12 closes = map Fin (ema_spec 12 closes)"
  by (simp add: EMA_12_def ewm_mean_fin)

lemma EMA_26_spec: "EMA_26 closes = map Fin (ema_spec 26 closes)"
  by (simp add: EMA_26_def ewm_mean_fin)

lemma MACD_spec:
  "MACD closes = map Fin (map2 (\<lambda>a b. a - b) (ema_spec 12 closes) (ema_spec 26 closes))"
  by (simp add: MACD_def EMA_12_spec EMA_26_spec map2_fsub_Fin)

lemma Signal_Line_spec:
  "Signal_Line closes =
     map Fin (ema_spec 9 (map2 (\<lambda>a b. a - b) (ema_spec 12 closes) (ema_spec 26 closes)))"
  unfolding Signal_Line_def MACD_spec by (rule ewm_mean_fin) simp

lemma NaN_notin_Fin [simp]: "NaN \<notin> set (map Fin xs)"
  by auto

lemma column_EMA_12: "column (attach_indicators d) ''EMA_12'' = Some (EMA_12 (Close d))"
  by (simp add: attach_indicators_def Let_def column_setcol)

lemma column_EMA_26: "column (attach_indicators d) ''EMA_26'' = Some (EMA_26 (Close d))"
  by (simp add: attach_indicators_def Let_def column_setcol)

lemma column_MACD: "column (attach_indicators d) ''MACD'' = Some (MACD (Close d))"
  by (simp add: attach_indicators_def Let_def column_setcol)

lemma column_Signal_Line:
  "column (attach_indicators d) ''Signal_Line'' = Some (Signal_Line (Close d))"
  by (simp add: attach_indicators_def Let_def column_setcol)

text \<open>
  C2. For a span \<open>k \<ge> 1\<close> the exponentially weighted mean of a series of numbers is the
  recurrence of the specification: the first value is the first close, and each later
  value is \<open>\<alpha> * close[i] + (1 - \<alpha>) * EMA[i - 1]\<close> with \<open>\<alpha> = 2 / (k + 1)\<close>. The
  columns \<open>EMA_12\<close> and \<open>EMA_26\<close> are this recurrence on the closes, \<open>MACD\<close> is their
  difference row by row, \<open>Signal_Line\<close> is the recurrence with span 9 on the MACD series,
  and none of them holds a NaN.
\<close>

theorem ema_contract:
  assumes "1 \<le> k"
  shows "ewm_mean k (map Fin closes) = map Fin (ema_spec k closes) \<and>
         length (ema_spec k closes) = length closes \<and>
         (closes \<noteq> [] \<longrightarrow> ema_spec k closes ! 0 = closes ! 0) \<and>
         (\<forall>i. 0 < i \<and> i < length closes \<longrightarrow>
            ema_spec k closes ! i =
              2 / (k + 1) * closes ! i + (1 - 2 / (k + 1)) * ema_spec k closes ! (i - 1)) \<and>
         EMA_12 closes = map Fin (ema_spec 12 closes) \<and>
         EMA_26 closes = map Fin (ema_spec 26 closes) \<and>
         MACD closes =
           map Fin (map2 (\<lambda>a b. a - b) (ema_spec 12 closes) (ema_spec 26 closes)) \<and>
         Signal_Line closes =
           map Fin (ema_spec 9 (map2 (\<lambda>a b. a - b) (ema_spec 12 closes) (ema_spec 26 closes))) \<and>
         NaN \<notin> set (ewm_mean k (map Fin closes)) \<union> set (EMA_12 closes) \<union>
                 set (EMA_26 closes) \<union> set (MACD closes) \<union> set (Signal_Line closes) \<and>
         column (attach_indicators d) ''EMA_12'' = Some (EMA_12 (Close d)) \<and>
         column (attach_indicators d) ''EMA_26'' = Some (EMA_26 (Close d)) \<and>
         column (attach_indicators d) ''MACD'' = Some (MACD (Close d)) \<and>
         column (attach_indicators d) ''Signal_Line'' = Some (Signal_Line (Close d))"
proof -
  have rec: "\<forall>i. 0 < i \<and> i < length closes \<longrightarrow>
            ema_spec k closes ! i =
              2 / (k + 1) * closes ! i + (1 - 2 / (k + 1)) * ema_spec k closes ! (i - 1)"
    using ema_spec_Suc by blast
  have nan: "NaN \<notin> set (ewm_mean k (map Fin closes)) \<union> set (EMA_12 closes) \<union>
                 set (EMA_26 closes) \<union> set (MACD closes) \<union> set (Signal_Line closes)"
    unfolding ewm_mean_fin [OF assms] EMA_12_spec EMA_26_spec MACD_spec Signal_Line_spec
    by (simp only: Un_iff NaN_notin_Fin simp_thms)
  have seed: "closes \<noteq> [] \<longrightarrow> ema_spec k closes ! 0 = closes ! 0"
    by (simp add: ema_spec_0)
  show ?thesis
    by (intro conjI ewm_mean_fin [OF assms] length_ema_spec seed rec nan EMA_12_spec
        EMA_26_spec MACD_spec Signal_Line_spec column_EMA_12 column_EMA_26 column_MACD
        column_Signal_Line)
qed

theorem ema_contract_witness:
  "(1::real) \<le> 3 \<and> ewm_mean 3 (map Fin [1, 2, 4]) = [Fin 1, Fin (3 / 2), Fin (11 / 4)] \<and>
   EMA_12 [1, 2] = [Fin 1, Fin (15 / 13)] \<and>
   MACD [1, 2] = [Fin 0, Fin (28 / 351)]"
proof -
  have k: "(1::real) \<le> 3" by simp
  note c = ema_contract [OF k, of "[1, 2, 4]" "history []"]
  note c2 = ema_contract [OF k, of "[1, 2]" "history []"]
  from c have "ewm_mean 3 (map Fin [1, 2, 4]) = [Fin 1, Fin (3 / 2), Fin (11 / 4)]"
    by (simp add: ema_spec_def)
  moreover from c2 have "EMA_12 [1, 2] = [Fin 1, Fin (15 / 13)]"
    by (simp add: ema_spec_def)
  moreover from c2 have "MACD [1, 2] = [Fin 0, Fin (28 / 351)]"
    by (simp add: ema_spec_def)
  ultimately show ?thesis by simp
qed

section \<open>Relative strength index\<close>

lemma diff_Cons:
  "diff (x # rest) = NaN # map Fin (first_differences (x # rest))"
  by (simp add: diff_def first_differences_def case_prod_beta o_def)

lemma length_first_differences [simp]:
  "length (first_differences xs) = length xs - 1"
  by (simp add: first_differences_def)

lemma first_differences_nth:
  "Suc j < length xs \<Longrightarrow> first_differences xs ! j = xs ! Suc j - xs ! j"
  by (simp add: first_differences_def nth_tl)

lemma gain_Cons:
  "gain (x # rest) = NaN # map Fin (map (\<lambda>d. max d 0) (first_differences (x # rest)))"
  by (auto simp: gain_def delta_def diff_Cons max_def)

lemma loss_Cons:
  "loss (x # rest) = NaN # map Fin (map (\<lambda>d. - max (- d) 0) (first_differences (x # rest)))"
  by (auto simp: loss_def delta_def diff_Cons max_def)

lemma ema_rec_uminus:
  "ema_rec \<alpha> (- p) (map uminus xs) = map uminus (ema_rec \<alpha> p xs)"
proof (induction xs arbitrary: p)
  case Nil
  then show ?case by simp
next
  case (Cons x xs)
  have "\<alpha> * - x + (1 - \<alpha>) * - p = - (\<alpha> * x + (1 - \<alpha>) * p)"
    by (simp add: algebra_simps)
  with Cons [of "\<alpha> * x + (1 - \<alpha>) * p"] show ?case by simp
qed

lemma ema_spec_uminus: "ema_spec k (map uminus xs) = map uminus (ema_spec k xs)"
  by (cases xs) (simp_all add: ema_spec_def ema_rec_uminus)

lemma ema_rec_nonneg:
  assumes "0 \<le> \<alpha>" "\<alpha> \<le> 1"
  shows "0 \<le> p \<Longrightarrow> \<forall>x\<in>set xs. 0 \<le> x \<Longrightarrow> \<forall>e\<in>set (ema_rec \<alpha> p xs). 0 \<le> e"
proof (induction xs arbitrary: p)
  case Nil
  then show ?case by simp
next
  case (Cons x xs)
  have "0 \<le> \<alpha> * x + (1 - \<alpha>) * p"
    using assms Cons.prems by simp
  with Cons show ?case by simp
qed

lemma ema_spec_nonneg:
  assumes "1 \<le> k" "\<forall>x\<in>set xs. 0 \<le> x"
  shows "\<forall>e\<in>set (ema_spec k xs). 0 \<le> e"
proof (cases xs)
  case Nil
  then show ?thesis by (simp add: ema_spec_def)
next
  case (Cons x rest)
  have "0 \<le> 2 / (k + 1)" "2 / (k + 1) \<le> 1" using assms(1) by simp_all
  from ema_rec_nonneg [OF this, of x rest] assms(2) Cons
  show ?thesis by (simp add: ema_spec_def)
qed

lemma avg_gain_Cons:
  "avg_gain (x # rest) =
     NaN # map Fin (ema_spec 14 (map (\<lambda>d. max d 0) (first_differences (x # rest))))"
  unfolding avg_gain_def gain_Cons by (rule ewm_mean_nan_fin) simp

lemma avg_loss_Cons:
  "avg_loss (x # rest) =
     NaN # map Fin (ema_spec 14 (map (\<lambda>d. max (- d) 0) (first_differences (x # rest))))"
proof -
  let ?m = "map (\<lambda>d. max (- d) 0) (first_differences (x # rest))"
  have "loss (x # rest) = NaN # map Fin (map uminus ?m)"
    by (simp add: loss_Cons o_def)
  moreover have "ewm_mean 14 (NaN # map Fin (map uminus ?m)) =
      NaN # map Fin (ema_spec 14 (map uminus ?m))"
    by (rule ewm_mean_nan_fin) simp
  ultimately have "ewm_mean 14 (loss (x # rest)) =
      NaN # map Fin (map uminus (ema_spec 14 ?m))"
    by (simp only: ema_spec_uminus)
  moreover have "\<forall>e\<in>set (ema_spec 14 ?m). 0 \<le> e"
    by (rule ema_spec_nonneg) simp_all
  then have "map fabs (map Fin (map uminus (ema_spec 14 ?m))) = map Fin (ema_spec 14 ?m)"
    by (induction "ema_spec 14 ?m") auto
  ultimately show ?thesis by (simp add: avg_loss_def)
qed

text \<open>
  C3. For at least two closes, with \<open>d\<close> the first differences, \<open>g = max(d, 0)\<close> the gains
  and \<open>l = max(-d, 0)\<close> the loss magnitudes: the smoothed average gain and average loss
  are NaN at row 0, and from row 1 on they are the recurrence of the specification with
  span 14 (\<open>\<alpha> = 2 / 15\<close>) on \<open>g\<close> and on \<open>l\<close>, seeded with the first difference.
\<close>

theorem rsi_smoothing_contract:
  assumes "2 \<le> length closes"
  shows "let d = first_differences closes;
             g = map (\<lambda>x. max x 0) d;
             l = map (\<lambda>x. max (- x) 0) d
         in length d = length closes - 1 \<and>
            (\<forall>j. Suc j < length closes \<longrightarrow> d ! j = closes ! Suc j - closes ! j) \<and>
            gain closes = NaN # map Fin g \<and>
            loss closes = NaN # map Fin (map uminus l) \<and>
            avg_gain closes = NaN # map Fin (ema_spec 14 g) \<and>
            avg_loss closes = NaN # map Fin (ema_spec 14 l) \<and>
            ema_spec 14 g ! 0 = g ! 0 \<and>
            ema_spec 14 l ! 0 = l ! 0 \<and>
            (\<forall>j. 0 < j \<and> j < length d \<longrightarrow>
               ema_spec 14 g ! j = 2 / 15 * g ! j + (1 - 2 / 15) * ema_spec 14 g ! (j - 1) \<and>
               ema_spec 14 l ! j = 2 / 15 * l ! j + (1 - 2 / 15) * ema_spec 14 l ! (j - 1))"
proof -
  define d where "d = first_differences closes"
  define g where "g = map (\<lambda>x. max x 0) d"
  define l where "l = map (\<lambda>x. max (- x) 0) d"
  from assms obtain x rest where c: "closes = x # rest" by (cases closes) auto
  have len: "length d = length closes - 1" by (simp add: d_def)
  have g0: "g \<noteq> []" and l0: "l \<noteq> []" using assms len by (auto simp: g_def l_def)
  have nth: "\<forall>j. Suc j < length closes \<longrightarrow> d ! j = closes ! Suc j - closes ! j"
    by (simp add: d_def first_differences_nth)
  have gn: "gain closes = NaN # map Fin g"
    unfolding c g_def d_def by (rule gain_Cons)
  have ln: "loss closes = NaN # map Fin (map uminus l)"
    unfolding c l_def d_def by (simp add: loss_Cons o_def)
  have ag: "avg_gain closes = NaN # map Fin (ema_spec 14 g)"
    unfolding c g_def d_def by (rule avg_gain_Cons)
  have al: "avg_loss closes = NaN # map Fin (ema_spec 14 l)"
    unfolding c l_def d_def by (rule avg_loss_Cons)
  have sg: "ema_spec 14 g ! 0 = g ! 0" using g0 by (rule ema_spec_0)
  have sl: "ema_spec 14 l ! 0 = l ! 0" using l0 by (rule ema_spec_0)
  have "\<forall>j. 0 < j \<and> j < length d \<longrightarrow>
               ema_spec 14 g ! j = 2 / 15 * g ! j + (1 - 2 / 15) * ema_spec 14 g ! (j - 1) \<and>
               ema_spec 14 l ! j = 2 / 15 * l ! j + (1 - 2 / 15) * ema_spec 14 l ! (j - 1)"
    using ema_spec_Suc [of _ g 14] ema_spec_Suc [of _ l 14] by (simp add: g_def l_def)
  with len nth gn ln ag al sg sl show ?thesis
    unfolding Let_def d_def [symmetric] g_def [symmetric] l_def [symmetric] by blast
qed

theorem rsi_smoothing_contract_witness:
  "2 \<le> length [1, 2, 4, 3 :: real] \<and>
   avg_gain [1, 2, 4, 3] = [NaN, Fin 1, Fin (17 / 15), Fin (221 / 225)] \<and>
   avg_loss [1, 2, 4, 3] = [NaN, Fin 0, Fin 0, Fin (2 / 15)]"
proof -
  have h: "2 \<le> length [1, 2, 4, 3 :: real]" by simp
  have d: "first_differences [1, 2, 4, 3] = [1, 2, - 1]"
    by (simp add: first_differences_def)
  from rsi_smoothing_contract [OF h] show ?thesis
    by (simp add: Let_def d ema_spec_def)
qed

lemma rsi_cell:
  assumes "0 \<le> g" "0 \<le> l"
  shows "fsub (Fin 100) (fdiv (Fin 100) (fadd (Fin 1) (fdiv (Fin g) (Fin l)))) =
           (if l = 0 then (if g = 0 then NaN else Fin 100)
            else Fin (100 - 100 / (1 + g / l)))"
proof -
  have "1 + g / l \<noteq> 0" if "l \<noteq> 0"
  proof -
    have "0 \<le> g / l" using assms by simp
    then show ?thesis by linarith
  qed
  then show ?thesis using assms by (auto simp: fsub_def)
qed

lemma rs_cell:
  assumes "0 \<le> g" "0 \<le> l"
  shows "fdiv (Fin g) (Fin l) =
           (if l = 0 then (if g = 0 then NaN else PInf) else Fin (g / l))"
  using assms by auto

lemma length_avg_gain [simp]: "length (avg_gain closes) = length closes"
  by (cases closes) (simp_all add: avg_gain_Cons, simp add: avg_gain_def gain_def delta_def diff_def ewm_mean_def)

lemma length_avg_loss [simp]: "length (avg_loss closes) = length closes"
  by (cases closes) (simp_all add: avg_loss_Cons, simp add: avg_loss_def loss_def delta_def diff_def ewm_mean_def)

lemma length_rs [simp]: "length (rs closes) = length closes"
  by (simp add: rs_def)

lemma length_RSI [simp]: "length (RSI closes) = length closes"
  by (simp add: RSI_def)

lemma RSI_nth:
  "i < length closes \<Longrightarrow>
   RSI closes ! i =
     fsub (Fin 100) (fdiv (Fin 100) (fadd (Fin 1) (fdiv (avg_gain closes ! i) (avg_loss closes ! i))))"
  by (simp add: RSI_def rs_def)

lemma rs_nth:
  "i < length closes \<Longrightarrow> rs closes ! i = fdiv (avg_gain closes ! i) (avg_loss closes ! i)"
  by (simp add: rs_def)

lemma RSI_0: "closes \<noteq> [] \<Longrightarrow> RSI closes ! 0 = NaN"
  by (cases closes) (simp_all add: RSI_nth avg_gain_Cons fsub_def)

lemma avg_cells:
  assumes "1 \<le> i" "i < length closes"
  shows "\<exists>g l. 0 \<le> g \<and> 0 \<le> l \<and> avg_gain closes ! i = Fin g \<and> avg_loss closes ! i = Fin l"
proof -
  from assms obtain x rest where c: "closes = x # rest" by (cases closes) auto
  from assms obtain j where j: "i = Suc j" by (cases i) auto
  let ?d = "first_differences (x # rest)"
  let ?g = "ema_spec 14 (map (\<lambda>d. max d 0) ?d)"
  let ?l = "ema_spec 14 (map (\<lambda>d. max (- d) 0) ?d)"
  have jl: "j < length ?g" "j < length ?l" using assms c j by simp_all
  have "\<forall>e\<in>set ?g. 0 \<le> e" by (rule ema_spec_nonneg) simp_all
  then have g: "0 \<le> ?g ! j" using jl by simp
  have "\<forall>e\<in>set ?l. 0 \<le> e" by (rule ema_spec_nonneg) simp_all
  then have l: "0 \<le> ?l ! j" using jl by simp
  have "avg_gain closes ! i = Fin (?g ! j)" "avg_loss closes ! i = Fin (?l ! j)"
    using jl unfolding c j avg_gain_Cons avg_loss_Cons by simp_all
  with g l show ?thesis by blast
qed

lemma avg_12: "avg_gain [1, 2] = [NaN, Fin 1]" "avg_loss [1, 2] = [NaN, Fin 0]"
  by (simp_all add: avg_gain_Cons avg_loss_Cons first_differences_def ema_spec_def)

lemma avg_const: "avg_gain [10, 10] = [NaN, Fin 0]" "avg_loss [10, 10] = [NaN, Fin 0]"
  by (simp_all add: avg_gain_Cons avg_loss_Cons first_differences_def ema_spec_def)

text \<open>
  C4, as stated, fails: no special case intercepts the zero denominator. On the closes
  \<open>[1, 2]\<close> the average loss at row 1 is 0, the average gain is 1, and the raw division
  yields an infinite relative strength.
\<close>

theorem rsi_zero_loss_counterexample:
  "avg_gain [1, 2] ! 1 = Fin 1 \<and> avg_loss [1, 2] ! 1 = Fin 0 \<and> rs [1, 2] ! 1 = PInf"
  by (simp add: avg_12 rs_nth)

text \<open>
  C4, amended. Where the average loss is 0 and the average gain is positive, the raw
  division makes the relative strength infinite, \<open>100 / (1 + RS)\<close> is then 0 and the RSI is
  exactly 100; the RSI column itself never holds an infinity.
\<close>

theorem rsi_zero_loss:
  assumes "i < length closes" "avg_loss closes ! i = Fin 0" "avg_gain closes ! i = Fin g" "0 < g"
  shows "rs closes ! i = PInf \<and> RSI closes ! i = Fin 100 \<and>
         (\<forall>j<length closes. RSI closes ! j \<noteq> PInf \<and> RSI closes ! j \<noteq> NInf)"
proof -
  have "rs closes ! i = PInf"
    using assms by (simp add: rs_nth)
  moreover have "RSI closes ! i = Fin 100"
    using assms by (simp add: RSI_nth fsub_def)
  moreover have "RSI closes ! j \<noteq> PInf \<and> RSI closes ! j \<noteq> NInf" if j: "j < length closes" for j
  proof (cases j)
    case 0
    with j show ?thesis using RSI_0 [of closes] by auto
  next
    case (Suc m)
    with j avg_cells [of j closes]
    obtain a l where "0 \<le> a" "0 \<le> l" "avg_gain closes ! j = Fin a" "avg_loss closes ! j = Fin l"
      by auto
    then show ?thesis
      using j rsi_cell [of a l] by (simp add: RSI_nth)
  qed
  ultimately show ?thesis by blast
qed

theorem rsi_zero_loss_witness:
  "1 < length [1, 2 :: real] \<and> avg_loss [1, 2] ! 1 = Fin 0 \<and> avg_gain [1, 2] ! 1 = Fin 1 \<and>
   (0::real) < 1 \<and> RSI [1, 2] ! 1 = Fin 100"
proof -
  have h: "1 < length [1, 2 :: real]" "avg_loss [1, 2] ! 1 = Fin 0"
    "avg_gain [1, 2] ! 1 = Fin 1" "(0::real) < 1"
    by (simp_all add: avg_12)
  from rsi_zero_loss [OF h] h show ?thesis by simp
qed

text \<open>
  C5, as stated, fails on a constant-price run: on the closes \<open>[10, 10]\<close> both smoothed
  averages are 0 at row 1 and the RSI there is NaN, neither 0 nor any number in
  \<open>[0, 100]\<close>.
\<close>

theorem rsi_range_counterexample:
  "avg_gain [10, 10] ! 1 = Fin 0 \<and> avg_loss [10, 10] ! 1 = Fin 0 \<and>
   RSI [10, 10] ! 1 = NaN \<and>
   \<not> (\<exists>r. RSI [10, 10] ! 1 = Fin r \<and> 0 \<le> r \<and> r \<le> 100)"
  by (simp add: avg_const RSI_nth fsub_def)

text \<open>
  C5, amended. The RSI is NaN at row 0. At every row from 1 on the two smoothed
  averages are non-negative numbers. Where both are 0 the RSI is NaN. Everywhere else
  the RSI is a number in \<open>[0, 100]\<close>; it is 100 when the average loss is 0 (the average
  gain is then positive), and it is 0 when the average gain is 0 (the average loss is
  then positive).
\<close>

theorem rsi_range:
  assumes "1 \<le> i" "i < length closes"
  shows "RSI closes ! 0 = NaN \<and>
         (\<exists>g l. 0 \<le> g \<and> 0 \<le> l \<and>
           avg_gain closes ! i = Fin g \<and> avg_loss closes ! i = Fin l \<and>
           (if g = 0 \<and> l = 0 then RSI closes ! i = NaN
            else \<exists>r. RSI closes ! i = Fin r \<and> 0 \<le> r \<and> r \<le> 100 \<and>
                     (l = 0 \<longrightarrow> r = 100) \<and> (g = 0 \<longrightarrow> r = 0)))"
proof -
  have first: "RSI closes ! 0 = NaN"
    using assms by (intro RSI_0) auto
  from avg_cells [OF assms] obtain g l where
    gl: "0 \<le> g" "0 \<le> l" "avg_gain closes ! i = Fin g" "avg_loss closes ! i = Fin l"
    by blast
  have cell: "RSI closes ! i =
      (if l = 0 then (if g = 0 then NaN else Fin 100) else Fin (100 - 100 / (1 + g / l)))"
    using assms gl rsi_cell [of g l] by (simp add: RSI_nth)
  have rest: "\<exists>r. RSI closes ! i = Fin r \<and> 0 \<le> r \<and> r \<le> 100 \<and>
                     (l = 0 \<longrightarrow> r = 100) \<and> (g = 0 \<longrightarrow> r = 0)"
    if nz: "\<not> (g = 0 \<and> l = 0)"
  proof (cases "l = 0")
    case True
    with nz gl cell show ?thesis by auto
  next
    case False
    with gl have lp: "0 < l" by simp
    define q where "q = 1 + g / l"
    have q1: "1 \<le> q" using gl lp by (simp add: q_def)
    have qe: "g = 0 \<longrightarrow> q = 1" by (simp add: q_def)
    have a: "0 < 100 / q" using q1 by simp
    have b: "100 / q \<le> 100" using q1 by (simp add: field_simps)
    from False cell have "RSI closes ! i = Fin (100 - 100 / q)" by (simp add: q_def)
    moreover have "0 \<le> 100 - 100 / q" "100 - 100 / q \<le> 100" using a b by simp_all
    moreover have "g = 0 \<longrightarrow> 100 - 100 / q = 0" using qe by simp
    ultimately show ?thesis using False by auto
  qed
  have "\<exists>g l. 0 \<le> g \<and> 0 \<le> l \<and>
           avg_gain closes ! i = Fin g \<and> avg_loss closes ! i = Fin l \<and>
           (if g = 0 \<and> l = 0 then RSI closes ! i = NaN
            else \<exists>r. RSI closes ! i = Fin r \<and> 0 \<le> r \<and> r \<le> 100 \<and>
                     (l = 0 \<longrightarrow> r = 100) \<and> (g = 0 \<longrightarrow> r = 0))"
  proof (cases "g = 0 \<and> l = 0")
    case True
    with cell gl show ?thesis by auto
  next
    case False
    from rest [OF False] gl False show ?thesis by auto
  qed
  with first show ?thesis by blast
qed

lemma avg_21: "avg_gain [2, 1] = [NaN, Fin 0]" "avg_loss [2, 1] = [NaN, Fin 1]"
  by (simp_all add: avg_gain_Cons avg_loss_Cons first_differences_def ema_spec_def)

theorem rsi_range_witness:
  "(1::nat) \<le> 3 \<and> 3 < length [1, 2, 4, 3 :: real] \<and>
   (\<exists>r. RSI [1, 2, 4, 3] ! 3 = Fin r \<and> 0 \<le> r \<and> r \<le> 100) \<and>
   (1::nat) \<le> 1 \<and> 1 < length [1, 2 :: real] \<and> RSI [1, 2] ! 1 = Fin 100 \<and>
   1 < length [2, 1 :: real] \<and> RSI [2, 1] ! 1 = Fin 0"
proof -
  have h: "(1::nat) \<le> 3" "3 < length [1, 2, 4, 3 :: real]" by simp_all
  have h1: "(1::nat) \<le> 1" "1 < length [1, 2 :: real]" by simp_all
  have h2: "(1::nat) \<le> 1" "1 < length [2, 1 :: real]" by simp_all
  have a: "avg_gain [1, 2, 4, 3] ! 3 = Fin (221 / 225)" "avg_loss [1, 2, 4, 3] ! 3 = Fin (2 / 15)"
    by (simp_all add: avg_gain_Cons avg_loss_Cons first_differences_def ema_spec_def)
  from rsi_range [OF h, THEN conjunct2] obtain g l where
    gl: "avg_gain [1, 2, 4, 3] ! 3 = Fin g" "avg_loss [1, 2, 4, 3] ! 3 = Fin l" and
    r: "if g = 0 \<and> l = 0 then RSI [1, 2, 4, 3] ! 3 = NaN
        else \<exists>r. RSI [1, 2, 4, 3] ! 3 = Fin r \<and> 0 \<le> r \<and> r \<le> 100 \<and>
                 (l = 0 \<longrightarrow> r = 100) \<and> (g = 0 \<longrightarrow> r = 0)"
    by blast
  from gl a have "g = 221 / 225" "l = 2 / 15" by simp_all
  with r have mid: "\<exists>r. RSI [1, 2, 4, 3] ! 3 = Fin r \<and> 0 \<le> r \<and> r \<le> 100"
    by auto
  from rsi_range [OF h1, THEN conjunct2] obtain g1 l1 where
    gl1: "avg_gain [1, 2] ! 1 = Fin g1" "avg_loss [1, 2] ! 1 = Fin l1" and
    r1: "if g1 = 0 \<and> l1 = 0 then RSI [1, 2] ! 1 = NaN
        else \<exists>r. RSI [1, 2] ! 1 = Fin r \<and> 0 \<le> r \<and> r \<le> 100 \<and>
                 (l1 = 0 \<longrightarrow> r = 100) \<and> (g1 = 0 \<longrightarrow> r = 0)"
    by blast
  from gl1 have "g1 = 1" "l1 = 0" by (simp_all add: avg_12)
  with r1 have top: "RSI [1, 2] ! 1 = Fin 100" by auto
  from rsi_range [OF h2, THEN conjunct2] obtain g2 l2 where
    gl2: "avg_gain [2, 1] ! 1 = Fin g2" "avg_loss [2, 1] ! 1 = Fin l2" and
    r2: "if g2 = 0 \<and> l2 = 0 then RSI [2, 1] ! 1 = NaN
        else \<exists>r. RSI [2, 1] ! 1 = Fin r \<and> 0 \<le> r \<and> r \<le> 100 \<and>
                 (l2 = 0 \<longrightarrow> r = 100) \<and> (g2 = 0 \<longrightarrow> r = 0)"
    by blast
  from gl2 have "g2 = 0" "l2 = 1" by (simp_all add: avg_21)
  with r2 have bottom: "RSI [2, 1] ! 1 = Fin 0" by auto
  from mid top bottom h h1 h2 show ?thesis by blast
qed

section \<open>Bollinger bands\<close>

lemma length_rolling_std [simp]: "length (rolling_std k xs) = length xs"
  by (simp add: rolling_std_def)

lemma rolling_std_window:
  assumes "i < length xs"
  shows "rolling_std k xs ! i =
           (if k \<le> length (window k xs i) \<and> 1 < length (window k xs i)
            then Fin (sample_std (window k xs i)) else NaN)"
  using assms by (auto simp: rolling_std_def Let_def)


lemma length_Middle_Band [simp]: "length (Middle_Band closes) = length closes"
  by (simp add: Middle_Band_def)

lemma length_Upper_Band [simp]: "length (Upper_Band closes) = length closes"
  by (simp add: Upper_Band_def)

lemma length_Lower_Band [simp]: "length (Lower_Band closes) = length closes"
  by (simp add: Lower_Band_def)

lemma Upper_Band_nth:
  "i < length closes \<Longrightarrow>
   Upper_Band closes ! i = fadd (Middle_Band closes ! i) (fmul (rolling_std 20 closes ! i) (Fin 2))"
  by (simp add: Upper_Band_def)

lemma Lower_Band_nth:
  "i < length closes \<Longrightarrow>
   Lower_Band closes ! i = fsub (Middle_Band closes ! i) (fmul (rolling_std 20 closes ! i) (Fin 2))"
  by (simp add: Lower_Band_def)

lemma bands_warmup:
  assumes "i < length closes" "i < 19"
  shows "Middle_Band closes ! i = NaN" "rolling_std 20 closes ! i = NaN"
    "Upper_Band closes ! i = NaN" "Lower_Band closes ! i = NaN"
  using assms
  by (simp_all add: Upper_Band_nth Lower_Band_nth Middle_Band_def rolling_mean_window
      rolling_std_window length_window fsub_def)

lemma bands_defined:
  assumes "i < length closes" "19 \<le> i"
  shows "Middle_Band closes ! i = Fin (mean (window 20 closes i))"
    "rolling_std 20 closes ! i = Fin (sample_std (window 20 closes i))"
    "Upper_Band closes ! i =
       Fin (mean (window 20 closes i) + sample_std (window 20 closes i) * 2)"
    "Lower_Band closes ! i =
       Fin (mean (window 20 closes i) - sample_std (window 20 closes i) * 2)"
  using assms
  by (simp_all add: Upper_Band_nth Lower_Band_nth Middle_Band_def rolling_mean_window
      rolling_std_window length_window fsub_def)








section \<open>Pipeline assembly and trim\<close>

lemma columns_attach_history:
  "columns (attach_indicators (history bs)) =
     [(''SMA_20'', rolling_mean 20 (map bar_close bs)),
      (''SMA_50'', rolling_mean 50 (map bar_close bs)),
      (''RSI'', RSI (map bar_close bs)),
      (''EMA_12'', EMA_12 (map bar_close bs)),
      (''EMA_26'', EMA_26 (map bar_close bs)),
      (''MACD'', MACD (map bar_close bs)),
      (''Signal_Line'', Signal_Line (map bar_close bs)),
      (''Middle_Band'', Middle_Band (map bar_close bs)),
      (''Upper_Band'', Upper_Band (map bar_close bs)),
      (''Lower_Band'', Lower_Band (map bar_close bs)),
      (''Volume_SMA_20'', rolling_mean 20 (map bar_volume bs))]"
  by (simp add: attach_indicators_def setcol_def history_def Let_def Close_def Volume_def)

lemma bars_attach_history [simp]: "bars (attach_indicators (history bs)) = bs"
  by (simp add: attach_indicators_def setcol_def history_def Let_def)

lemma rolling_mean_defined:
  assumes "i < length xs" "1 \<le> k"
  shows "rolling_mean k xs ! i \<noteq> NaN \<longleftrightarrow> k \<le> i + 1"
  using assms by (auto simp: rolling_mean_nth)

lemma Fin_nth_defined: "i < length xs \<Longrightarrow> map Fin xs ! i \<noteq> NaN"
  by simp

lemma ema_cols_defined:
  assumes "i < length closes"
  shows "EMA_12 closes ! i \<noteq> NaN" "EMA_26 closes ! i \<noteq> NaN"
    "MACD closes ! i \<noteq> NaN" "Signal_Line closes ! i \<noteq> NaN"
  using assms
  by (simp_all add: EMA_12_spec EMA_26_spec MACD_spec Signal_Line_spec)

lemma bands_defined_iff:
  assumes "i < length closes"
  shows "Middle_Band closes ! i \<noteq> NaN \<longleftrightarrow> 19 \<le> i"
    "Upper_Band closes ! i \<noteq> NaN \<longleftrightarrow> 19 \<le> i"
    "Lower_Band closes ! i \<noteq> NaN \<longleftrightarrow> 19 \<le> i"
  using bands_warmup [OF assms] bands_defined [OF assms]
  by (cases "i < 19"; simp)+

lemma row_defined_attach:
  assumes "i < length bs"
  shows "row_defined (attach_indicators (history bs)) i \<longleftrightarrow>
           49 \<le> i \<and> RSI (map bar_close bs) ! i \<noteq> NaN"
proof -
  have i: "i < length (map bar_close bs)" "i < length (map bar_volume bs)"
    using assms by simp_all
  show ?thesis
    unfolding row_defined_def columns_attach_history
    using ema_cols_defined [OF i(1)] bands_defined_iff [OF i(1)]
      rolling_mean_defined [OF i(1), of 20] rolling_mean_defined [OF i(1), of 50]
      rolling_mean_defined [OF i(2), of 20]
    by auto
qed

lemma ema_spec_pos_step:
  assumes "1 < k" "\<forall>x\<in>set xs. 0 \<le> x" "Suc j < length xs" "0 < ema_spec k xs ! j"
  shows "0 < ema_spec k xs ! Suc j"
proof -
  have a: "0 \<le> 2 / (k + 1)" "0 < 1 - 2 / (k + 1)" using assms(1) by simp_all
  have x: "0 \<le> xs ! Suc j" using assms(2,3) by simp
  have "ema_spec k xs ! Suc j =
      2 / (k + 1) * xs ! Suc j + (1 - 2 / (k + 1)) * ema_spec k xs ! j"
    using ema_spec_Suc [of "Suc j" xs k] assms(3) by simp
  moreover have "0 \<le> 2 / (k + 1) * xs ! Suc j" using a(1) x by simp
  moreover have "0 < (1 - 2 / (k + 1)) * ema_spec k xs ! j" using a(2) assms(4) by simp
  ultimately show ?thesis by linarith
qed

lemma ema_spec_pos_persist:
  assumes "1 < k" "\<forall>x\<in>set xs. 0 \<le> x" "0 < ema_spec k xs ! i"
  shows "i \<le> j \<Longrightarrow> j < length xs \<Longrightarrow> 0 < ema_spec k xs ! j"
proof (induction j)
  case 0
  with assms(3) show ?case by simp
next
  case (Suc j)
  show ?case
  proof (cases "i = Suc j")
    case True
    with assms(3) show ?thesis by simp
  next
    case False
    with Suc have "0 < ema_spec k xs ! j" by simp
    with assms(1,2) Suc.prems(2) show ?thesis by (intro ema_spec_pos_step)
  qed
qed

lemma RSI_defined_iff:
  assumes "closes = x # rest" "j < length rest"
  shows "RSI closes ! Suc j \<noteq> NaN \<longleftrightarrow>
           0 < ema_spec 14 (map (\<lambda>d. max d 0) (first_differences closes)) ! j \<or>
           0 < ema_spec 14 (map (\<lambda>d. max (- d) 0) (first_differences closes)) ! j"
proof -
  let ?g = "ema_spec 14 (map (\<lambda>d. max d 0) (first_differences closes))"
  let ?l = "ema_spec 14 (map (\<lambda>d. max (- d) 0) (first_differences closes))"
  have jl: "j < length ?g" "j < length ?l" using assms by simp_all
  have "\<forall>e\<in>set ?g. 0 \<le> e" by (rule ema_spec_nonneg) simp_all
  then have g: "0 \<le> ?g ! j" using jl by simp
  have "\<forall>e\<in>set ?l. 0 \<le> e" by (rule ema_spec_nonneg) simp_all
  then have l: "0 \<le> ?l ! j" using jl by simp
  have "avg_gain closes ! Suc j = Fin (?g ! j)" "avg_loss closes ! Suc j = Fin (?l ! j)"
    using jl unfolding assms(1) avg_gain_Cons avg_loss_Cons by simp_all
  then have "RSI closes ! Suc j =
      (if ?l ! j = 0 then (if ?g ! j = 0 then NaN else Fin 100)
       else Fin (100 - 100 / (1 + ?g ! j / ?l ! j)))"
    using assms rsi_cell [OF g l] by (simp add: RSI_nth)
  with g l show ?thesis by auto
qed

lemma RSI_defined_persist:
  assumes "RSI closes ! i \<noteq> NaN" "i \<le> j" "j < length closes"
  shows "RSI closes ! j \<noteq> NaN"
proof -
  from assms obtain x rest where c: "closes = x # rest" by (cases closes) auto
  from assms c RSI_0 [of closes] obtain i' where i': "i = Suc i'" by (cases i) auto
  with assms obtain j' where j': "j = Suc j'" by (cases j) auto
  let ?g = "map (\<lambda>d. max d 0) (first_differences closes)"
  let ?l = "map (\<lambda>d. max (- d) 0) (first_differences closes)"
  have len: "i' < length rest" "j' < length rest" "i' \<le> j'"
    using assms c i' j' by simp_all
  have lg: "j' < length ?g" "j' < length ?l" using len c by simp_all
  from assms(1) have "0 < ema_spec 14 ?g ! i' \<or> 0 < ema_spec 14 ?l ! i'"
    unfolding i' using RSI_defined_iff [OF c len(1)] by simp
  then have "0 < ema_spec 14 ?g ! j' \<or> 0 < ema_spec 14 ?l ! j'"
  proof
    assume "0 < ema_spec 14 ?g ! i'"
    then have "0 < ema_spec 14 ?g ! j'"
      using len(3) lg(1) by (intro ema_spec_pos_persist [of 14 ?g i' j']) simp_all
    then show ?thesis ..
  next
    assume "0 < ema_spec 14 ?l ! i'"
    then have "0 < ema_spec 14 ?l ! j'"
      using len(3) lg(2) by (intro ema_spec_pos_persist [of 14 ?l i' j']) simp_all
    then show ?thesis ..
  qed
  then show ?thesis
    unfolding j' using RSI_defined_iff [OF c len(2)] by simp
qed

lemma filter_upward_closed:
  assumes "\<And>i j. P i \<Longrightarrow> i \<le> j \<Longrightarrow> j < n \<Longrightarrow> P j"
  shows "\<exists>k\<le>n. filter P [0..<n] = [k..<n]"
  using assms
proof (induction n)
  case 0
  then show ?case by simp
next
  case (Suc n)
  then have "\<exists>k\<le>n. filter P [0..<n] = [k..<n]" by simp
  then obtain k where k: "k \<le> n" "filter P [0..<n] = [k..<n]" by blast
  show ?case
  proof (cases "P n")
    case True
    with k have "filter P [0..<Suc n] = [k..<Suc n]" by simp
    with k(1) show ?thesis by (intro exI [of _ k]) simp
  next
    case False
    have "\<not> P i" if "i < n" for i
      using Suc.prems [of i n] False that by auto
    then have "filter P [0..<n] = []" by (simp add: filter_empty_conv)
    with False have "filter P [0..<Suc n] = [Suc n..<Suc n]" by simp
    then show ?thesis by (intro exI [of _ "Suc n"]) simp
  qed
qed

lemma map_nth_upt_drop: "k \<le> length xs \<Longrightarrow> map (\<lambda>i. xs ! i) [k..<length xs] = drop k xs"
  by (intro nth_equalityI) simp_all

lemma kept_rows_attach:
  "kept_rows (attach_indicators (history bs)) =
     filter (\<lambda>i. 49 \<le> i \<and> RSI (map bar_close bs) ! i \<noteq> NaN) [0..<length bs]"
  unfolding kept_rows_def bars_attach_history
  by (rule filter_cong) (simp_all add: row_defined_attach)

lemma kept_rows_suffix:
  "\<exists>k\<le>length bs. kept_rows (attach_indicators (history bs)) = [k..<length bs]"
  unfolding kept_rows_attach
proof (rule filter_upward_closed)
  fix i j
  assume "49 \<le> i \<and> RSI (map bar_close bs) ! i \<noteq> NaN" "i \<le> j" "j < length bs"
  then show "49 \<le> j \<and> RSI (map bar_close bs) ! j \<noteq> NaN"
    using RSI_defined_persist [of "map bar_close bs" i j] by simp
qed

lemma kept_rows_short:
  "length bs < 50 \<Longrightarrow> kept_rows (attach_indicators (history bs)) = []"
  unfolding kept_rows_attach by (auto simp: filter_empty_conv)

lemma kept_rows_filter:
  "kept_rows d =
     filter (\<lambda>i. \<forall>(name, col)\<in>set (columns d). col ! i \<noteq> NaN) [0..<length (bars d)]"
proof -
  have "row_defined d = (\<lambda>i. \<forall>(name, col)\<in>set (columns d). col ! i \<noteq> NaN)"
    by (rule ext) (simp add: row_defined_def list_all_iff)
  then show ?thesis by (simp add: kept_rows_def)
qed

lemma dropna_dense:
  assumes "(name, col) \<in> set (columns (dropna d))"
  shows "length col = length (bars (dropna d)) \<and> NaN \<notin> set col"
proof -
  from assms obtain c where c: "(name, c) \<in> set (columns d)"
    and col: "col = map (\<lambda>i. c ! i) (kept_rows d)"
    by (auto simp: dropna_def Let_def)
  have "c ! i \<noteq> NaN" if "i \<in> set (kept_rows d)" for i
    using that c by (auto simp: kept_rows_filter)
  then have "NaN \<notin> set col" unfolding col by (metis (no_types, lifting) imageE list.set_map)
  then show ?thesis by (simp add: col dropna_def Let_def)
qed

lemma columns_attach_length:
  assumes "(name, col) \<in> set (columns (attach_indicators (history bs)))"
  shows "length col = length bs"
  using assms unfolding columns_attach_history
  by (auto simp: EMA_12_spec EMA_26_spec MACD_spec Signal_Line_spec)

lemma calculate_history:
  assumes "h a = history bs" "bs \<noteq> []"
  shows "calculate_technical_indicators (DataFrame a) h =
           (DataFrame a, h(a := dropna (attach_indicators (history bs))))"
  using assms by (simp add: calculate_technical_indicators_def empty_def history_def)

lemma RSI_defined_varying:
  assumes "closes ! 0 \<noteq> closes ! 1" "1 \<le> i" "i < length closes"
  shows "RSI closes ! i \<noteq> NaN"
proof -
  from assms obtain x y rest where c: "closes = x # y # rest"
    by (cases closes; cases "tl closes") auto
  let ?g = "map (\<lambda>d. max d 0) (first_differences closes)"
  let ?l = "map (\<lambda>d. max (- d) 0) (first_differences closes)"
  have "ema_spec 14 ?g ! 0 = max (y - x) 0" "ema_spec 14 ?l ! 0 = max (x - y) 0"
    by (simp_all add: c first_differences_def ema_spec_def)
  moreover have "x \<noteq> y" using assms(1) c by simp
  ultimately have "0 < ema_spec 14 ?g ! 0 \<or> 0 < ema_spec 14 ?l ! 0" by auto
  then have "RSI closes ! Suc 0 \<noteq> NaN"
    using RSI_defined_iff [of closes x "y # rest" 0] c by simp
  then show ?thesis
    using RSI_defined_persist [of closes "Suc 0" i] assms by simp
qed

lemma kept_rows_varying:
  assumes "bar_close (bs ! 0) \<noteq> bar_close (bs ! 1)" "50 \<le> length bs"
  shows "kept_rows (attach_indicators (history bs)) = [49..<length bs]"
proof -
  have "RSI (map bar_close bs) ! i \<noteq> NaN" if "49 \<le> i" "i < length bs" for i
  proof -
    have "0 < length bs" "1 < length bs" using assms(2) by linarith+
    then have "map bar_close bs ! 0 \<noteq> map bar_close bs ! 1"
      using assms(1) by (simp add: nth_map del: length_greater_0_conv)
    then show ?thesis
      using that by (intro RSI_defined_varying) simp_all
  qed
  then have "filter (\<lambda>i. 49 \<le> i \<and> RSI (map bar_close bs) ! i \<noteq> NaN) [0..<length bs] =
      filter (\<lambda>i. 49 \<le> i) [0..<length bs]"
    by (intro filter_cong) auto
  also have "\<dots> = filter (\<lambda>i. 49 \<le> i) ([0..<49] @ [49..<length bs])"
  proof -
    have "[0..<49 + (length bs - 49)] = [0..<49] @ [49..<49 + (length bs - 49)]"
      by (rule upt_add_eq_append) simp
    moreover have "49 + (length bs - 49) = length bs" using assms(2) by simp
    ultimately show ?thesis by simp
  qed
  also have "\<dots> = [49..<length bs]"
    by (simp add: filter_empty_conv filter_id_conv del: upt_Suc)
  finally show ?thesis by (simp add: kept_rows_attach)
qed

text \<open>
  C7. For a non-empty fetched history the engine returns the same object, now holding
  the trimmed frame: the rows kept are exactly those at which every attached column is
  not NaN, the bars and every column are restricted to these rows, so no NaN is left in
  any column; with fewer than 50 bars no row is kept and the result is the frame with
  empty columns.
\<close>

theorem trim_contract:
  assumes "h a = history bs" "bs \<noteq> []"
  shows "let A = attach_indicators (history bs);
             out = calculate_technical_indicators (DataFrame a) h;
             r = snd out a
         in fst out = DataFrame a \<and> r = dropna A \<and>
            map fst (columns A) =
              [''SMA_20'', ''SMA_50'', ''RSI'', ''EMA_12'', ''EMA_26'', ''MACD'',
               ''Signal_Line'', ''Middle_Band'', ''Upper_Band'', ''Lower_Band'',
               ''Volume_SMA_20''] \<and>
            kept_rows A =
              filter (\<lambda>i. \<forall>(name, col)\<in>set (columns A). col ! i \<noteq> NaN) [0..<length bs] \<and>
            bars r = map (\<lambda>i. bs ! i) (kept_rows A) \<and>
            columns r =
              map (\<lambda>(name, col). (name, map (\<lambda>i. col ! i) (kept_rows A))) (columns A) \<and>
            (\<forall>(name, col)\<in>set (columns r). length col = length (bars r) \<and> NaN \<notin> set col) \<and>
            (length bs < 50 \<longrightarrow> bars r = [] \<and> (\<forall>(name, col)\<in>set (columns r). col = []))"
proof -
  define A where "A = attach_indicators (history bs)"
  define r where "r = dropna A"
  have out: "calculate_technical_indicators (DataFrame a) h = (DataFrame a, h(a := r))"
    unfolding r_def A_def using assms by (rule calculate_history)
  have names: "map fst (columns A) =
              [''SMA_20'', ''SMA_50'', ''RSI'', ''EMA_12'', ''EMA_26'', ''MACD'',
               ''Signal_Line'', ''Middle_Band'', ''Upper_Band'', ''Lower_Band'',
               ''Volume_SMA_20'']"
    by (simp add: A_def columns_attach_history)
  have kept: "kept_rows A =
      filter (\<lambda>i. \<forall>(name, col)\<in>set (columns A). col ! i \<noteq> NaN) [0..<length bs]"
    using kept_rows_filter [of A] by (simp add: A_def)
  have rb: "bars r = map (\<lambda>i. bs ! i) (kept_rows A)"
    by (simp add: r_def dropna_def Let_def A_def)
  have rc: "columns r =
      map (\<lambda>(name, col). (name, map (\<lambda>i. col ! i) (kept_rows A))) (columns A)"
    by (simp add: r_def dropna_def Let_def)
  have dense: "\<forall>(name, col)\<in>set (columns r). length col = length (bars r) \<and> NaN \<notin> set col"
    using dropna_dense [of _ _ A] unfolding r_def by blast
  have short: "length bs < 50 \<longrightarrow> bars r = [] \<and> (\<forall>(name, col)\<in>set (columns r). col = [])"
  proof
    assume "length bs < 50"
    then have "kept_rows A = []" unfolding A_def by (rule kept_rows_short)
    then show "bars r = [] \<and> (\<forall>(name, col)\<in>set (columns r). col = [])"
      by (auto simp: rb rc)
  qed
  have sel: "fst (DataFrame a, h(a := r)) = DataFrame a" "snd (DataFrame a, h(a := r)) a = r"
    by simp_all
  show ?thesis
    unfolding Let_def A_def [symmetric] out sel
    by (intro conjI refl r_def names kept rb rc dense short)
qed

lemma length_rising [simp]: "length (rising n) = n"
  by (simp add: rising_def)

lemma rising_close: "i < n \<Longrightarrow> bar_close (rising n ! i) = real i"
  by (simp add: rising_def)

lemma kept_rows_rising: "50 \<le> n \<Longrightarrow> kept_rows (attach_indicators (history (rising n))) = [49..<n]"
  using kept_rows_varying [of "rising n"] by (simp add: rising_close)

lemma rising_nonempty: "0 < n \<Longrightarrow> rising n \<noteq> []"
  by (simp add: rising_def)

theorem trim_contract_witness:
  "((\<lambda>_. history [])(0 := history (rising 51))) 0 = history (rising 51) \<and> rising 51 \<noteq> [] \<and>
   ((\<lambda>_. history [])(0 := history (rising 5))) 0 = history (rising 5) \<and> rising 5 \<noteq> [] \<and>
   fst (calculate_technical_indicators (DataFrame 0) ((\<lambda>_. history [])(0 := history (rising 51)))) =
     DataFrame 0 \<and>
   bars (snd (calculate_technical_indicators (DataFrame 0)
     ((\<lambda>_. history [])(0 := history (rising 51)))) 0) = [rising 51 ! 49, rising 51 ! 50] \<and>
   bars (snd (calculate_technical_indicators (DataFrame 0)
     ((\<lambda>_. history [])(0 := history (rising 5)))) 0) = []"
proof -
  let ?h = "(\<lambda>_. history [])(0 := history (rising 51))"
  let ?h5 = "(\<lambda>_. history [])(0 := history (rising 5))"
  have a: "?h 0 = history (rising 51)" by simp
  have b: "rising 51 \<noteq> []" by (simp add: rising_nonempty)
  have c: "?h5 0 = history (rising 5)" by simp
  have d: "rising 5 \<noteq> []" by (simp add: rising_nonempty)
  have k: "kept_rows (attach_indicators (history (rising 51))) = [49, 50]"
    by (simp add: kept_rows_rising upt_rec)
  note t = trim_contract [of ?h 0 "rising 51", OF a b, unfolded Let_def]
  note t5 = trim_contract [of ?h5 0 "rising 5", OF c d, unfolded Let_def]
  from t have "fst (calculate_technical_indicators (DataFrame 0) ?h) = DataFrame 0"
    by blast
  moreover from t have "bars (snd (calculate_technical_indicators (DataFrame 0) ?h) 0) =
      map (\<lambda>i. rising 51 ! i) (kept_rows (attach_indicators (history (rising 51))))"
    by blast
  then have "bars (snd (calculate_technical_indicators (DataFrame 0) ?h) 0) =
     [rising 51 ! 49, rising 51 ! 50]"
    by (simp only: k list.map)
  moreover from t5 have "length (rising 5) < 50 \<longrightarrow>
      bars (snd (calculate_technical_indicators (DataFrame 0) ?h5) 0) = []"
    by blast
  then have "bars (snd (calculate_technical_indicators (DataFrame 0) ?h5) 0) = []"
    by simp
  ultimately show ?thesis using a b c d by simp
qed

text \<open>
  C8. The rows that survive the trim are the positions \<open>k, k + 1, ...\<close> up to the last
  one, for some \<open>k\<close>: the returned bars are the input bars without their first \<open>k\<close>, and
  once a row is kept every later row is kept.
\<close>

theorem trim_suffix:
  assumes "h a = history bs" "bs \<noteq> []"
  shows "\<exists>k\<le>length bs.
           kept_rows (attach_indicators (history bs)) = [k..<length bs] \<and>
           bars (snd (calculate_technical_indicators (DataFrame a) h) a) = drop k bs \<and>
           (\<forall>i j. i \<in> set (kept_rows (attach_indicators (history bs))) \<and> i \<le> j \<and>
                  j < length bs \<longrightarrow> j \<in> set (kept_rows (attach_indicators (history bs))))"
proof -
  from kept_rows_suffix [of bs] obtain k where
    k: "k \<le> length bs" "kept_rows (attach_indicators (history bs)) = [k..<length bs]"
    by blast
  have "calculate_technical_indicators (DataFrame a) h =
      (DataFrame a, h(a := dropna (attach_indicators (history bs))))"
    using assms by (rule calculate_history)
  then have "bars (snd (calculate_technical_indicators (DataFrame a) h) a) =
      map (\<lambda>i. bs ! i) [k..<length bs]"
    using k(2) by (simp add: dropna_def Let_def)
  also have "\<dots> = drop k bs" using k(1) by (rule map_nth_upt_drop)
  finally have "bars (snd (calculate_technical_indicators (DataFrame a) h) a) = drop k bs" .
  with k show ?thesis by (intro exI [of _ k]) auto
qed

theorem trim_suffix_witness:
  "((\<lambda>_. history [])(0 := history (rising 51))) 0 = history (rising 51) \<and> rising 51 \<noteq> [] \<and>
   49 \<in> set (kept_rows (attach_indicators (history (rising 51)))) \<and>
   (49::nat) \<le> 50 \<and> 50 < length (rising 51) \<and>
   50 \<in> set (kept_rows (attach_indicators (history (rising 51)))) \<and>
   0 \<notin> set (kept_rows (attach_indicators (history (rising 51))))"
proof -
  let ?h = "(\<lambda>_. history [])(0 := history (rising 51))"
  let ?K = "kept_rows (attach_indicators (history (rising 51)))"
  have a: "?h 0 = history (rising 51)" by simp
  have b: "rising 51 \<noteq> []" by (simp add: rising_nonempty)
  have k: "49 \<in> set ?K" "0 \<notin> set ?K"
    by (simp_all add: kept_rows_rising)
  have l: "50 < length (rising 51)" by simp
  from trim_suffix [of ?h 0 "rising 51", OF a b] have
    "\<forall>i j. i \<in> set ?K \<and> i \<le> j \<and> j < length (rising 51) \<longrightarrow> j \<in> set ?K"
    by blast
  then have "49 \<in> set ?K \<and> (49::nat) \<le> 50 \<and> 50 < length (rising 51) \<longrightarrow> 50 \<in> set ?K"
    by blast
  with k l have "50 \<in> set ?K" by simp
  with a b k l show ?thesis by simp
qed

section \<open>The function as a whole\<close>

lemma bars_attach_indicators [simp]: "bars (attach_indicators d) = bars d"
  by (simp add: attach_indicators_def setcol_def Let_def)









text \<open>
  C10. Called with \<open>None\<close> the function returns \<open>None\<close>, and called with an empty frame it
  returns that frame; in both cases the heap is unchanged, so no column is attached.
\<close>

theorem engine_no_data:
  "calculate_technical_indicators PyNone h = (PyNone, h) \<and>
   (empty (h a) \<longrightarrow> calculate_technical_indicators (DataFrame a) h = (DataFrame a, h))"
  by (simp add: calculate_technical_indicators_def)

theorem engine_no_data_witness:
  "empty (((\<lambda>_. history (rising 7))(0 := history [])) 0) \<and>
   calculate_technical_indicators (DataFrame 0) ((\<lambda>_. history (rising 7))(0 := history [])) =
     (DataFrame 0, (\<lambda>_. history (rising 7))(0 := history []))"
proof -
  let ?h = "(\<lambda>_. history (rising 7))(0 := history [])"
  have e: "empty (?h 0)" by (simp only: fun_upd_same empty_def history_def frame.simps)
  from engine_no_data [of ?h 0, THEN conjunct2, rule_format, OF e] e
  show ?thesis by (rule conjI [rotated])
qed

end
